theory Spec2Isabelle
  imports Main "HOL-Library.Word"
begin

section \<open>Tutorial filters: \<open>sortByLevel\<close>\<close>

text \<open>
  \<open>filters.ts\<close> sorts tutorials by the position of their level in the constant
  \<open>TUTORIAL_LEVELS\<close>, which is imported from \<open>utils/pg\<close> and is not among the
  sources: it is a parameter of the model, a list of levels. A \<open>TutorialLevel\<close> is
  a string literal type.
\<close>

type_synonym TutorialLevel = string

text \<open>\<open>T extends { level: TutorialLevel }\<close>: any record with a \<open>level\<close> field.\<close>

record tutorial =
  level :: TutorialLevel

text \<open>
  \<open>Array.prototype.indexOf\<close>: the index of the first element equal to the one
  searched, \<open>-1\<close> when there is none.
\<close>

fun indexOf_from :: "int \<Rightarrow> 'a list \<Rightarrow> 'a \<Rightarrow> int" where
  "indexOf_from i [] x = -1"
| "indexOf_from i (y # ys) x = (if y = x then i else indexOf_from (i + 1) ys x)"

definition indexOf :: "'a list \<Rightarrow> 'a \<Rightarrow> int" where
  "indexOf xs x = indexOf_from 0 xs x"

definition sortByLevel :: "TutorialLevel list \<Rightarrow> 'a tutorial_scheme \<Rightarrow> 'a tutorial_scheme \<Rightarrow> int" where
  "sortByLevel TUTORIAL_LEVELS a b =
     indexOf TUTORIAL_LEVELS (level a) - indexOf TUTORIAL_LEVELS (level b)"

text \<open>
  A level occurs strictly before another one in a list when it is found in the
  part of the list that comes before the first occurrence of the other.
\<close>

definition occurs_before :: "'a list \<Rightarrow> 'a \<Rightarrow> 'a \<Rightarrow> bool" where
  "occurs_before xs x y = (x \<in> set (takeWhile (\<lambda>z. z \<noteq> y) xs))"

section \<open>Program info: the data\<close>

text \<open>
  The second source file keeps the program info of the current workspace: its
  state, its storage (\<open>storage.read\<close>, \<open>storage.write\<close>), the derived public
  key and the two fetches from the chain.
\<close>

type_synonym byte = "8 word"

text \<open>
  A JSON document; an object is the list of its properties in insertion order.
  The numbers of the documents in play (bytes, sizes) are integers.
\<close>

datatype json =
    JNull
  | JBool bool
  | JNum int
  | JStr string
  | JArr "json list"
  | JObj "(string \<times> json) list"

text \<open>A JavaScript \<open>Error\<close> with its \<open>message\<close>.\<close>

datatype error = Error (message: string)

text \<open>
  \<open>PublicKey\<close> and \<open>Keypair\<close> are classes of \<open>@solana/web3.js\<close>. The
  sources read \<open>kp.secretKey\<close> and \<open>kp.publicKey\<close>; everything else goes
  through the methods of the library, which are parameters of the model
  (record \<open>web3js\<close> below).
\<close>

datatype PublicKey = PublicKey (toBytes: "byte list")

record Keypair =
  secretKey :: "byte list"
  publicKey :: PublicKey

text \<open>An Anchor IDL is a JSON object: the list of its properties.\<close>

type_synonym Idl = "(string \<times> json) list"

record ImportedProgram =
  buffer :: "byte list"
  fileName :: string

text \<open>\<open>ProgramInfo\<close>: every field is nullable (\<open>None\<close> is \<open>null\<close>).\<close>

record ProgramInfo =
  uuid :: "string option"
  kp :: "Keypair option"
  customPk :: "PublicKey option"
  idl :: "Idl option"
  importedProgram :: "ImportedProgram option"

text \<open>\<open>SerializedProgramInfo\<close>, the type of the stored object.\<close>

record SerializedProgramInfo =
  uuid_s :: "string option"
  kp_s :: "int list option"
  customPk_s :: "string option"
  idl_s :: "Idl option"

definition defaultState :: ProgramInfo where
  "defaultState =
     \<lparr>uuid = None, kp = None, customPk = None, idl = None, importedProgram = None\<rparr>"

text \<open>
  The methods of \<open>@solana/web3.js\<close> that the sources call: \<open>Keypair.fromSecretKey\<close>,
  \<open>new PublicKey\<close> of a base58 string and of a buffer (each may throw), and
  \<open>toBase58\<close>.
\<close>

record web3js =
  Keypair_fromSecretKey :: "byte list \<Rightarrow> error + Keypair"
  PublicKey_of_string :: "string \<Rightarrow> error + PublicKey"
  PublicKey_of_buffer :: "byte list \<Rightarrow> error + PublicKey"
  toBase58 :: "PublicKey \<Rightarrow> string"

section \<open>The explorer and its file system\<close>

text \<open>
  Modelled from the spec: \<open>PgExplorer\<close> (\<open>currentWorkspaceName\<close>,
  \<open>fs.readToJSON\<close>, \<open>fs.writeFile\<close>) is not among the sources. The spec has a
  virtual file system that holds the JSON file of the program info, and reads that
  can fail. A file holds a text; the text that \<open>JSON.stringify\<close> makes of a
  document, and that \<open>JSON.parse\<close> reads back as that document, is represented
  by the document (\<open>Json\<close>); any other text makes \<open>JSON.parse\<close> throw
  (\<open>Text\<close>). Every access is recorded in \<open>fs_log\<close>.
\<close>

datatype content = Json json | Text string

datatype fs_op = ReadToJSON string | WriteFile string content

record explorer =
  currentWorkspaceName :: "string option"
  files :: "string \<Rightarrow> content option"
  fs_log :: "fs_op list"

text \<open>Modelled from the spec: \<open>PgExplorer.fs.readToJSON\<close> fails when the file is
  absent or its text is not JSON, else it returns the parsed document.\<close>

definition readToJSON :: "explorer \<Rightarrow> string \<Rightarrow> (error + json) \<times> explorer" where
  "readToJSON ex path =
     ((case files ex path of
         None \<Rightarrow> Inl (Error ''file not found'')
       | Some (Text t) \<Rightarrow> Inl (Error ''JSON.parse: unexpected token'')
       | Some (Json j) \<Rightarrow> Inr j),
      ex\<lparr>fs_log := fs_log ex @ [ReadToJSON path]\<rparr>)"

text \<open>Modelled from the spec: \<open>PgExplorer.fs.writeFile\<close> puts the content at the
  path.\<close>

definition writeFile :: "explorer \<Rightarrow> string \<Rightarrow> content \<Rightarrow> explorer" where
  "writeFile ex path c =
     ex\<lparr>files := (files ex)(path \<mapsto> c),
        fs_log := fs_log ex @ [WriteFile path c]\<rparr>"

definition JSON_stringify :: "json \<Rightarrow> content" where
  "JSON_stringify j = Json j"

text \<open>JavaScript truthiness of a \<open>string | undefined\<close>: absent and empty are falsy.\<close>

definition truthy :: "string option \<Rightarrow> bool" where
  "truthy v = (case v of None \<Rightarrow> False | Some s \<Rightarrow> s \<noteq> [])"

section \<open>Storage\<close>

definition PATH :: string where
  "PATH = ''.workspace/program-info.json''"

text \<open>\<open>Array.from\<close> of a \<open>Uint8Array\<close>, and \<open>Uint8Array.from\<close> of an array of
  numbers (each number is taken modulo 256).\<close>

definition Array_from :: "byte list \<Rightarrow> int list" where
  "Array_from bs = map uint bs"

definition Uint8Array_from :: "int list \<Rightarrow> byte list" where
  "Uint8Array_from ns = map word_of_int ns"

text \<open>The object literal of \<open>storage.write\<close> as a JSON document, property by
  property in the order of the source.\<close>

definition nullable :: "('a \<Rightarrow> json) \<Rightarrow> 'a option \<Rightarrow> json" where
  "nullable f v = (case v of None \<Rightarrow> JNull | Some x \<Rightarrow> f x)"

definition serialized_json :: "SerializedProgramInfo \<Rightarrow> json" where
  "serialized_json s =
     JObj [(''uuid'', nullable JStr (uuid_s s)),
           (''idl'', nullable JObj (idl_s s)),
           (''kp'', nullable (\<lambda>ns. JArr (map JNum ns)) (kp_s s)),
           (''customPk'', nullable JStr (customPk_s s))]"

definition serialize :: "web3js \<Rightarrow> ProgramInfo \<Rightarrow> SerializedProgramInfo" where
  "serialize w state =
     \<lparr>uuid_s = uuid state,
      kp_s = (case kp state of Some k \<Rightarrow> Some (Array_from (secretKey k)) | None \<Rightarrow> None),
      customPk_s = (case customPk state of Some p \<Rightarrow> Some (toBase58 w p) | None \<Rightarrow> None),
      idl_s = idl state\<rparr>"

definition storage_write :: "web3js \<Rightarrow> ProgramInfo \<Rightarrow> explorer \<Rightarrow> explorer" where
  "storage_write w state ex =
     (if \<not> truthy (currentWorkspaceName ex) then ex
      else writeFile ex PATH (JSON_stringify (serialized_json (serialize w state))))"

text \<open>
  \<open>storage.read\<close> annotates the parsed document with the type
  \<open>SerializedProgramInfo\<close>, which nothing checks at run time. \<open>typed\<close> is that
  annotation: the stored object seen at its declared type, \<open>None\<close> for a document
  outside the type (a property missing or of another type; further properties are
  allowed).
\<close>

fun numbers :: "json list \<Rightarrow> int list option" where
  "numbers [] = Some []"
| "numbers (JNum n # js) = (case numbers js of None \<Rightarrow> None | Some ns \<Rightarrow> Some (n # ns))"
| "numbers (j # js) = None"

definition string_or_null :: "json option \<Rightarrow> string option option" where
  "string_or_null v =
     (case v of Some (JStr s) \<Rightarrow> Some (Some s) | Some JNull \<Rightarrow> Some None | _ \<Rightarrow> None)"

definition object_or_null :: "json option \<Rightarrow> Idl option option" where
  "object_or_null v =
     (case v of Some (JObj ps) \<Rightarrow> Some (Some ps) | Some JNull \<Rightarrow> Some None | _ \<Rightarrow> None)"

definition numbers_or_null :: "json option \<Rightarrow> int list option option" where
  "numbers_or_null v =
     (case v of
        Some (JArr js) \<Rightarrow> (case numbers js of None \<Rightarrow> None | Some ns \<Rightarrow> Some (Some ns))
      | Some JNull \<Rightarrow> Some None
      | _ \<Rightarrow> None)"

definition typed :: "json \<Rightarrow> SerializedProgramInfo option" where
  "typed j =
     (case j of
        JObj ps \<Rightarrow>
          (case (string_or_null (map_of ps ''uuid''), numbers_or_null (map_of ps ''kp''),
                 string_or_null (map_of ps ''customPk''), object_or_null (map_of ps ''idl'')) of
             (Some u, Some k, Some c, Some i) \<Rightarrow>
               Some \<lparr>uuid_s = u, kp_s = k, customPk_s = c, idl_s = i\<rparr>
           | _ \<Rightarrow> None)
      | _ \<Rightarrow> None)"

text \<open>
  The object that \<open>storage.read\<close> builds from the stored one. An array is truthy
  whatever it holds, a string when it is not empty. The properties are evaluated
  in the order of the source: \<open>kp\<close> first, then \<open>customPk\<close>.
\<close>

definition deserialize :: "web3js \<Rightarrow> SerializedProgramInfo \<Rightarrow> error + ProgramInfo" where
  "deserialize w serializedState =
     (case (case kp_s serializedState of
              Some ns \<Rightarrow>
                (case Keypair_fromSecretKey w (Uint8Array_from ns) of
                   Inl e \<Rightarrow> Inl e | Inr k \<Rightarrow> Inr (Some k))
            | None \<Rightarrow> Inr None) of
        Inl e \<Rightarrow> Inl e
      | Inr k \<Rightarrow>
          (case (case customPk_s serializedState of
                   Some s \<Rightarrow>
                     if s \<noteq> []
                     then (case PublicKey_of_string w s of
                             Inl e \<Rightarrow> Inl e | Inr p \<Rightarrow> Inr (Some p))
                     else Inr None
                 | None \<Rightarrow> Inr None) of
             Inl e \<Rightarrow> Inl e
           | Inr c \<Rightarrow>
               Inr \<lparr>uuid = uuid_s serializedState, kp = k, customPk = c,
                    idl = idl_s serializedState,
                    importedProgram = importedProgram defaultState\<rparr>))"

text \<open>
  What a call of \<open>storage.read\<close> does: it returns a state, it throws, or the stored
  document is outside its declared type, where the model stops.
\<close>

datatype 'a outcome = Returns 'a | Throws error | Untyped

definition storage_read :: "web3js \<Rightarrow> explorer \<Rightarrow> ProgramInfo outcome \<times> explorer" where
  "storage_read w ex =
     (if \<not> truthy (currentWorkspaceName ex) then (Returns defaultState, ex)
      else
        (case readToJSON ex PATH of
           (Inl e, ex') \<Rightarrow> (Returns defaultState, ex')
         | (Inr j, ex') \<Rightarrow>
             (case typed j of
                None \<Rightarrow> (Untyped, ex')
              | Some serializedState \<Rightarrow>
                  (case deserialize w serializedState of
                     Inl e \<Rightarrow> (Throws e, ex')
                   | Inr state \<Rightarrow> (Returns state, ex')))))"

section \<open>The derived public key\<close>

definition derive_pk :: "ProgramInfo \<Rightarrow> PublicKey option" where
  "derive_pk state =
     (case customPk state of
        Some p \<Rightarrow> Some p
      | None \<Rightarrow> (case kp state of Some k \<Rightarrow> Some (publicKey k) | None \<Rightarrow> None))"

section \<open>Fetching from the chain\<close>

text \<open>
  The connection (\<open>PgConnection.current\<close>) is not among the sources: whether it is
  ready, and what \<open>getAccountInfo\<close> answers, are parameters. The answer may
  depend on the calls made before, and it may be a failure. The calls made and the
  lines logged are recorded.
\<close>

record AccountInfo =
  data :: "byte list"

record connection =
  isReady :: bool
  getAccountInfo :: "PublicKey list \<Rightarrow> PublicKey \<Rightarrow> error + AccountInfo option"

record effects =
  rpc_calls :: "PublicKey list"
  console :: "string list list"

definition call_getAccountInfo ::
    "connection \<Rightarrow> PublicKey \<Rightarrow> effects \<Rightarrow> (error + AccountInfo option) \<times> effects" where
  "call_getAccountInfo conn address eff =
     (getAccountInfo conn (rpc_calls eff) address,
      eff\<lparr>rpc_calls := rpc_calls eff @ [address]\<rparr>)"

definition console_log :: "string list \<Rightarrow> effects \<Rightarrow> effects" where
  "console_log args eff = eff\<lparr>console := console eff @ [args]\<rparr>"

text \<open>The object that \<open>fetch\<close> returns; \<open>authority\<close> is absent in two of the three
  returns.\<close>

record OnChain =
  deployed :: bool
  authority :: "PublicKey option"
  upgradable :: bool

text \<open>\<open>buf.slice(start, end)\<close> for \<open>0 \<le> start \<le> end\<close>, and \<open>buf.at(i)\<close> for
  \<open>0 \<le> i\<close> (\<open>None\<close> is \<open>undefined\<close>).\<close>

definition slice :: "nat \<Rightarrow> nat \<Rightarrow> 'a list \<Rightarrow> 'a list" where
  "slice start stop xs = take (stop - start) (drop start xs)"

definition at :: "'a list \<Rightarrow> nat \<Rightarrow> 'a option" where
  "at xs i = (if i < length xs then Some (xs ! i) else None)"

text \<open>The body of the \<open>try\<close> block of \<open>fetch\<close>: \<open>Inl\<close> is an exception thrown in
  it.\<close>

definition fetch_try ::
    "web3js \<Rightarrow> connection \<Rightarrow> PublicKey \<Rightarrow> effects \<Rightarrow> (error + OnChain) \<times> effects" where
  "fetch_try w conn programId eff =
     (case call_getAccountInfo conn programId eff of
        (Inl e, eff1) \<Rightarrow> (Inl e, eff1)
      | (Inr programAccountInfo, eff1) \<Rightarrow>
          (let deployed = (programAccountInfo \<noteq> None) in
           case programAccountInfo of
             None \<Rightarrow> (Inr \<lparr>deployed = deployed, authority = None, upgradable = True\<rparr>, eff1)
           | Some info \<Rightarrow>
               (case PublicKey_of_buffer w (drop 4 (data info)) of
                  Inl e \<Rightarrow> (Inl e, eff1)
                | Inr programDataPk \<Rightarrow>
                    (case call_getAccountInfo conn programDataPk eff1 of
                       (Inl e, eff2) \<Rightarrow> (Inl e, eff2)
                     | (Inr programDataAccountInfo, eff2) \<Rightarrow>
                         (case programDataAccountInfo of
                            None \<Rightarrow>
                              (Inr \<lparr>deployed = deployed, authority = None, upgradable = False\<rparr>, eff2)
                          | Some dataInfo \<Rightarrow>
                              (case at (data dataInfo) 12 of
                                 None \<Rightarrow>
                                   (Inr \<lparr>deployed = deployed, authority = None,
                                         upgradable = False\<rparr>, eff2)
                               | Some authorityExists \<Rightarrow>
                                   if authorityExists = 0
                                   then (Inr \<lparr>deployed = deployed, authority = None,
                                              upgradable = False\<rparr>, eff2)
                                   else
                                     (case PublicKey_of_buffer w (slice 13 45 (data dataInfo)) of
                                        Inl e \<Rightarrow> (Inl e, eff2)
                                      | Inr upgradeAuthorityPk \<Rightarrow>
                                          (Inr \<lparr>deployed = deployed,
                                                authority = Some upgradeAuthorityPk,
                                                upgradable = True\<rparr>, eff2))))))))"

text \<open>The \<open>try\<close> with its \<open>catch\<close>: the exception is logged and the function falls
  off its end, returning \<open>undefined\<close> (\<open>None\<close>).\<close>

definition fetch_caught ::
    "web3js \<Rightarrow> connection \<Rightarrow> PublicKey \<Rightarrow> effects \<Rightarrow> (error + OnChain option) \<times> effects" where
  "fetch_caught w conn programId eff =
     (case fetch_try w conn programId eff of
        (Inl e, eff') \<Rightarrow> (Inr None, console_log [''Could not get authority:'', message e] eff')
      | (Inr r, eff') \<Rightarrow> (Inr (Some r), eff'))"

text \<open>\<open>_PgProgramInfo.fetch\<close>. \<open>PgProgramInfo.pk\<close> is the derived public key of the
  state. After the second guard \<open>programId ??= PgProgramInfo.pk\<close> is a key; the
  \<open>None\<close> branch of the \<open>case\<close> below is never taken.\<close>

definition fetch ::
    "web3js \<Rightarrow> connection \<Rightarrow> ProgramInfo \<Rightarrow> PublicKey option \<Rightarrow> effects
       \<Rightarrow> (error + OnChain option) \<times> effects" where
  "fetch w conn state programId eff =
     (if \<not> isReady conn then (Inr None, eff)
      else if programId = None \<and> derive_pk state = None then (Inr None, eff)
      else
        (case (case programId of Some p \<Rightarrow> Some p | None \<Rightarrow> derive_pk state) of
           None \<Rightarrow> (Inr None, eff)
         | Some p \<Rightarrow> fetch_caught w conn p eff))"

text \<open>
  The functions of Anchor and of \<open>pako\<close> that \<open>fetchIdl\<close> calls, each of which may
  throw: \<open>idlAddress\<close>, \<open>decodeIdlAccount\<close>, \<open>inflate\<close>, and the parse of the
  inflated bytes as the JSON of an IDL.
\<close>

record IdlAccount =
  authority_of :: PublicKey
  data_of :: "byte list"

record anchor =
  idlAddress :: "PublicKey \<Rightarrow> error + PublicKey"
  decodeIdlAccount :: "byte list \<Rightarrow> error + IdlAccount"
  inflate :: "byte list \<Rightarrow> error + byte list"
  parse_utf8 :: "byte list \<Rightarrow> error + Idl"

record FetchedIdl =
  fetched_idl :: Idl
  fetched_authority :: PublicKey

text \<open>\<open>_PgProgramInfo.fetchIdl\<close>: \<open>None\<close> is \<open>null\<close>. Nothing is caught here.\<close>

definition fetchIdl_from ::
    "anchor \<Rightarrow> connection \<Rightarrow> PublicKey \<Rightarrow> effects \<Rightarrow> (error + FetchedIdl option) \<times> effects" where
  "fetchIdl_from a conn programId eff =
     (case idlAddress a programId of
        Inl e \<Rightarrow> (Inl e, eff)
      | Inr idlPk \<Rightarrow>
          (case call_getAccountInfo conn idlPk eff of
             (Inl e, eff1) \<Rightarrow> (Inl e, eff1)
           | (Inr None, eff1) \<Rightarrow> (Inr None, eff1)
           | (Inr (Some accountInfo), eff1) \<Rightarrow>
               (case decodeIdlAccount a (drop 8 (data accountInfo)) of
                  Inl e \<Rightarrow> (Inl e, eff1)
                | Inr idlAccount \<Rightarrow>
                    (case inflate a (data_of idlAccount) of
                       Inl e \<Rightarrow> (Inl e, eff1)
                     | Inr inflatedIdl \<Rightarrow>
                         (case parse_utf8 a inflatedIdl of
                            Inl e \<Rightarrow> (Inl e, eff1)
                          | Inr parsed \<Rightarrow>
                              (Inr (Some \<lparr>fetched_idl = parsed,
                                         fetched_authority = authority_of idlAccount\<rparr>),
                               eff1))))))"

definition fetchIdl ::
    "anchor \<Rightarrow> connection \<Rightarrow> ProgramInfo \<Rightarrow> PublicKey option \<Rightarrow> effects
       \<Rightarrow> (error + FetchedIdl option) \<times> effects" where
  "fetchIdl a conn state programId eff =
     (case programId of
        Some p \<Rightarrow> fetchIdl_from a conn p eff
      | None \<Rightarrow>
          (case derive_pk state of
             None \<Rightarrow> (Inr None, eff)
           | Some p \<Rightarrow> fetchIdl_from a conn p eff))"

section \<open>What the claims speak of\<close>

text \<open>A workspace is open when the guard of the storage lets the call through.\<close>

definition workspace_open :: "explorer \<Rightarrow> bool" where
  "workspace_open ex = truthy (currentWorkspaceName ex)"

text \<open>
  The program id that the fetches work on: the argument when it is given, else the
  derived public key of the state.
\<close>

definition resolve :: "ProgramInfo \<Rightarrow> PublicKey option \<Rightarrow> PublicKey option" where
  "resolve state programId = (case programId of Some p \<Rightarrow> Some p | None \<Rightarrow> derive_pk state)"

text \<open>
  A keypair is valid when the library accepts its secret key and returns a keypair
  with that secret key; a public key is valid when its base58 string is not empty
  and the library makes of it a key with the same base58 string.
\<close>

definition valid_Keypair :: "web3js \<Rightarrow> Keypair \<Rightarrow> bool" where
  "valid_Keypair w k =
     (case Keypair_fromSecretKey w (secretKey k) of
        Inl e \<Rightarrow> False
      | Inr k' \<Rightarrow> secretKey k' = secretKey k)"

definition valid_PublicKey :: "web3js \<Rightarrow> PublicKey \<Rightarrow> bool" where
  "valid_PublicKey w p =
     (toBase58 w p \<noteq> [] \<and>
      (case PublicKey_of_string w (toBase58 w p) of
         Inl e \<Rightarrow> False
       | Inr p' \<Rightarrow> toBase58 w p' = toBase58 w p))"

section \<open>An instance for the examples\<close>

text \<open>
  An instance of the parameters, for the examples below. A secret key has 64
  bytes, of which the last 32 are the public key; a key has 32 bytes; the string of
  a key is here the text of its bytes, one character a byte.
\<close>

definition example_web3js :: web3js where
  "example_web3js =
     \<lparr>Keypair_fromSecretKey =
        (\<lambda>sk. if length sk = 64
              then Inr \<lparr>secretKey = sk, publicKey = PublicKey (drop 32 sk)\<rparr>
              else Inl (Error ''bad secret key size'')),
      PublicKey_of_string =
        (\<lambda>s. if length s = 32
             then Inr (PublicKey (map (\<lambda>c. of_nat (of_char c)) s))
             else Inl (Error ''Invalid public key input'')),
      PublicKey_of_buffer =
        (\<lambda>bs. if length bs \<le> 32
              then Inr (PublicKey (replicate (32 - length bs) 0 @ bs))
              else Inl (Error ''Invalid public key input'')),
      toBase58 = (\<lambda>p. map (\<lambda>b. char_of (unat b)) (toBytes p))\<rparr>"

definition example_Keypair :: Keypair where
  "example_Keypair =
     \<lparr>secretKey = replicate 32 7 @ replicate 32 49, publicKey = PublicKey (replicate 32 49)\<rparr>"

definition example_state :: ProgramInfo where
  "example_state =
     \<lparr>uuid = Some ''b3a1'',
      kp = Some example_Keypair,
      customPk = Some (PublicKey (replicate 32 50)),
      idl = Some [(''version'', JStr ''0.1.0''), (''name'', JStr ''hello''), (''instructions'', JArr [])],
      importedProgram = Some \<lparr>buffer = [127, 69, 76, 70], fileName = ''hello.so''\<rparr>\<rparr>"

definition example_explorer :: explorer where
  "example_explorer =
     \<lparr>currentWorkspaceName = Some ''hello'', files = Map.empty, fs_log = []\<rparr>"

text \<open>
  A chain with an upgradeable program at the custom key of the example state: the
  program account holds the address of its program data account from byte 4 on,
  and the program data account has an upgrade authority. A connection whose every
  request fails. An instance of the functions of Anchor.
\<close>

definition example_connection :: connection where
  "example_connection =
     \<lparr>isReady = True,
      getAccountInfo =
        (\<lambda>calls address.
           if address = PublicKey (replicate 32 50)
           then Inr (Some \<lparr>data = [2, 0, 0, 0] @ replicate 32 9\<rparr>)
           else if address = PublicKey (replicate 32 9)
           then Inr (Some \<lparr>data = [3, 0, 0, 0] @ replicate 8 0 @ [1] @ replicate 32 5\<rparr>)
           else Inr None)\<rparr>"

definition failing_connection :: connection where
  "failing_connection =
     \<lparr>isReady = True, getAccountInfo = (\<lambda>calls address. Inl (Error ''failed to fetch''))\<rparr>"

text \<open>
  Further connections, for the failures inside \<open>fetch\<close>: one whose first request
  is answered and whose later requests fail; one whose accounts hold 40 bytes, too
  many for a key from byte 4 on and too few for an IDL account from byte 8 on; one
  whose second account holds 20 bytes. And a library that takes a buffer for a key
  only when it has 32 bytes.
\<close>

definition second_failing_connection :: connection where
  "second_failing_connection =
     \<lparr>isReady = True,
      getAccountInfo =
        (\<lambda>calls address.
           if calls = [] then Inr (Some \<lparr>data = [2, 0, 0, 0] @ replicate 32 9\<rparr>)
           else Inl (Error ''failed to fetch''))\<rparr>"

definition long_data_connection :: connection where
  "long_data_connection =
     \<lparr>isReady = True,
      getAccountInfo = (\<lambda>calls address. Inr (Some \<lparr>data = replicate 40 1\<rparr>))\<rparr>"

definition short_data_connection :: connection where
  "short_data_connection =
     \<lparr>isReady = True,
      getAccountInfo =
        (\<lambda>calls address.
           if calls = [] then Inr (Some \<lparr>data = [2, 0, 0, 0] @ replicate 32 9\<rparr>)
           else Inr (Some \<lparr>data = replicate 20 1\<rparr>))\<rparr>"

definition strict_web3js :: web3js where
  "strict_web3js =
     example_web3js
       \<lparr>PublicKey_of_buffer :=
          (\<lambda>bs. if length bs = 32 then Inr (PublicKey bs)
                else Inl (Error ''Invalid public key input''))\<rparr>"

definition example_anchor :: anchor where
  "example_anchor =
     \<lparr>idlAddress = (\<lambda>p. Inr (PublicKey (replicate 32 3))),
      decodeIdlAccount =
        (\<lambda>bs. if length bs < 36 then Inl (Error ''buffer too short'')
              else Inr \<lparr>authority_of = PublicKey (take 32 bs), data_of = drop 36 bs\<rparr>),
      inflate = (\<lambda>bs. Inr bs),
      parse_utf8 = (\<lambda>bs. Inl (Error ''Unexpected end of JSON input''))\<rparr>"

definition no_effects :: effects where
  "no_effects = \<lparr>rpc_calls = [], console = []\<rparr>"

section \<open>Facts about \<open>indexOf\<close>\<close>

lemma indexOf_from_ge: "x \<in> set xs \<Longrightarrow> i \<le> indexOf_from i xs x"
proof (induction xs arbitrary: i)
  case Nil
  then show ?case by simp
next
  case (Cons y ys)
  show ?case
  proof (cases "y = x")
    case True
    then show ?thesis by simp
  next
    case False
    with Cons.prems have "x \<in> set ys" by simp
    then have "i + 1 \<le> indexOf_from (i + 1) ys x" by (rule Cons.IH)
    with False show ?thesis by simp
  qed
qed

lemma indexOf_from_lt_iff:
  "x \<in> set xs \<Longrightarrow> y \<in> set xs \<Longrightarrow>
     indexOf_from i xs x < indexOf_from i xs y \<longleftrightarrow> occurs_before xs x y"
proof (induction xs arbitrary: i)
  case Nil
  then show ?case by simp
next
  case (Cons z zs)
  show ?case
  proof (cases "z = y")
    case True
    from Cons.prems(1) have "i \<le> indexOf_from i (z # zs) x" by (rule indexOf_from_ge)
    with True show ?thesis by (simp add: occurs_before_def)
  next
    case zy: False
    with Cons.prems(2) have y: "y \<in> set zs" by simp
    show ?thesis
    proof (cases "z = x")
      case True
      from y have "i + 1 \<le> indexOf_from (i + 1) zs y" by (rule indexOf_from_ge)
      with True zy show ?thesis by (simp add: occurs_before_def)
    next
      case False
      with Cons.prems(1) have x: "x \<in> set zs" by simp
      from Cons.IH [OF x y, of "i + 1"] False zy show ?thesis
        by (simp add: occurs_before_def)
    qed
  qed
qed

lemma indexOf_lt_iff:
  "x \<in> set xs \<Longrightarrow> y \<in> set xs \<Longrightarrow> indexOf xs x < indexOf xs y \<longleftrightarrow> occurs_before xs x y"
  unfolding indexOf_def by (rule indexOf_from_lt_iff)

section \<open>\<open>sortByLevel\<close> is a comparator\<close>

text \<open>
  C10. For tutorials \<open>a\<close> and \<open>b\<close> whose levels occur in \<open>TUTORIAL_LEVELS\<close>,
  \<open>sortByLevel\<close> is antisymmetric (\<open>sortByLevel(a, b) = -sortByLevel(b, a)\<close>),
  it is \<open>0\<close> on equal arguments, and it is negative exactly when the level of
  \<open>a\<close> occurs strictly before the level of \<open>b\<close> in \<open>TUTORIAL_LEVELS\<close>.
\<close>

theorem sortByLevel_comparator:
  assumes "level a \<in> set TUTORIAL_LEVELS" and "level b \<in> set TUTORIAL_LEVELS"
  shows "sortByLevel TUTORIAL_LEVELS a b = - sortByLevel TUTORIAL_LEVELS b a
       \<and> sortByLevel TUTORIAL_LEVELS a a = 0
       \<and> (sortByLevel TUTORIAL_LEVELS a b < 0 \<longleftrightarrow>
            occurs_before TUTORIAL_LEVELS (level a) (level b))"
proof -
  have "sortByLevel TUTORIAL_LEVELS a b < 0 \<longleftrightarrow>
          indexOf TUTORIAL_LEVELS (level a) < indexOf TUTORIAL_LEVELS (level b)"
    by (simp add: sortByLevel_def)
  also have "\<dots> \<longleftrightarrow> occurs_before TUTORIAL_LEVELS (level a) (level b)"
    using assms by (rule indexOf_lt_iff)
  finally show ?thesis by (simp add: sortByLevel_def)
qed

theorem sortByLevel_comparator_witness:
  "sortByLevel [''Beginner'', ''Intermediate'', ''Advanced'', ''Experienced'']
       \<lparr>level = ''Intermediate''\<rparr> \<lparr>level = ''Experienced''\<rparr> = - 2
   \<and> sortByLevel [''Beginner'', ''Intermediate'', ''Advanced'', ''Experienced'']
       \<lparr>level = ''Experienced''\<rparr> \<lparr>level = ''Intermediate''\<rparr> = 2
   \<and> sortByLevel [''Beginner'', ''Intermediate'', ''Advanced'', ''Experienced'']
       \<lparr>level = ''Intermediate''\<rparr> \<lparr>level = ''Intermediate''\<rparr> = 0
   \<and> occurs_before [''Beginner'', ''Intermediate'', ''Advanced'', ''Experienced'']
            ''Intermediate'' ''Experienced''"
proof -
  have "sortByLevel [''Beginner'', ''Intermediate'', ''Advanced'', ''Experienced'']
       \<lparr>level = ''Intermediate''\<rparr> \<lparr>level = ''Experienced''\<rparr>
     = - sortByLevel [''Beginner'', ''Intermediate'', ''Advanced'', ''Experienced'']
           \<lparr>level = ''Experienced''\<rparr> \<lparr>level = ''Intermediate''\<rparr>
   \<and> sortByLevel [''Beginner'', ''Intermediate'', ''Advanced'', ''Experienced'']
       \<lparr>level = ''Intermediate''\<rparr> \<lparr>level = ''Intermediate''\<rparr> = 0
   \<and> (sortByLevel [''Beginner'', ''Intermediate'', ''Advanced'', ''Experienced'']
       \<lparr>level = ''Intermediate''\<rparr> \<lparr>level = ''Experienced''\<rparr> < 0
      \<longleftrightarrow> occurs_before [''Beginner'', ''Intermediate'', ''Advanced'', ''Experienced'']
            (level \<lparr>level = ''Intermediate''\<rparr>) (level \<lparr>level = ''Experienced''\<rparr>))"
    by (rule sortByLevel_comparator) simp_all
  moreover have "sortByLevel [''Beginner'', ''Intermediate'', ''Advanced'', ''Experienced'']
       \<lparr>level = ''Intermediate''\<rparr> \<lparr>level = ''Experienced''\<rparr> = - 2"
    by (simp add: sortByLevel_def indexOf_def)
  ultimately show ?thesis
    by simp
qed

section \<open>Facts about the storage\<close>

lemma numbers_map_JNum: "numbers (map JNum ns) = Some ns"
  by (induction ns) auto

lemma Uint8Array_from_Array_from: "Uint8Array_from (Array_from bs) = bs"
  by (simp add: Uint8Array_from_def Array_from_def comp_def map_idI)

lemma typed_serialized_json: "typed (serialized_json s) = Some s"
  by (cases "uuid_s s"; cases "kp_s s"; cases "customPk_s s"; cases "idl_s s")
     (simp_all add: typed_def serialized_json_def nullable_def string_or_null_def
        numbers_or_null_def object_or_null_def numbers_map_JNum)

lemma readToJSON_after_write:
  "workspace_open ex \<Longrightarrow>
   fst (readToJSON (storage_write w state ex) PATH) = Inr (serialized_json (serialize w state))"
  by (simp add: workspace_open_def storage_write_def writeFile_def readToJSON_def JSON_stringify_def)

lemma workspace_open_write: "workspace_open (storage_write w state ex) = workspace_open ex"
  by (simp add: workspace_open_def storage_write_def writeFile_def)

lemma storage_read_typed:
  assumes "workspace_open ex" and "fst (readToJSON ex PATH) = Inr (serialized_json s)"
  shows "fst (storage_read w ex) =
           (case deserialize w s of Inl e \<Rightarrow> Throws e | Inr state \<Rightarrow> Returns state)"
  using assms
  by (cases "readToJSON ex PATH")
     (simp add: storage_read_def workspace_open_def typed_serialized_json split: sum.splits)

lemma storage_read_after_write:
  assumes "workspace_open ex"
  shows "fst (storage_read w (storage_write w state ex)) =
           (case deserialize w (serialize w state) of
              Inl e \<Rightarrow> Throws e | Inr state' \<Rightarrow> Returns state')"
  using assms
  by (intro storage_read_typed readToJSON_after_write) (simp_all add: workspace_open_write)

lemma deserialize_serialize:
  assumes "\<forall>k. kp state = Some k \<longrightarrow> valid_Keypair w k"
    and "\<forall>p. customPk state = Some p \<longrightarrow> valid_PublicKey w p"
  shows "\<exists>state'. deserialize w (serialize w state) = Inr state'
           \<and> uuid state' = uuid state
           \<and> map_option secretKey (kp state') = map_option secretKey (kp state)
           \<and> map_option (toBase58 w) (customPk state') = map_option (toBase58 w) (customPk state)
           \<and> idl state' = idl state"
  using assms
  by (cases "kp state"; cases "customPk state")
     (auto simp: deserialize_def serialize_def valid_Keypair_def valid_PublicKey_def truthy_def
        Uint8Array_from_Array_from defaultState_def split: sum.splits)

lemma deserialize_importedProgram:
  "deserialize w s = Inr state \<Longrightarrow> importedProgram state = None"
  by (auto simp: deserialize_def defaultState_def split: sum.splits option.splits if_splits)

lemma storage_read_importedProgram:
  "fst (storage_read w ex) = Returns state \<Longrightarrow> importedProgram state = None"
  by (auto simp: storage_read_def defaultState_def split: if_splits prod.splits sum.splits option.splits
      dest: deserialize_importedProgram)

lemma serialize_importedProgram:
  "serialize w (state\<lparr>importedProgram := x\<rparr>) = serialize w state"
  by (simp add: serialize_def)

section \<open>Writing and reading back\<close>

text \<open>
  C1. For every state whose \<open>kp\<close> is a valid keypair or null and whose
  \<open>customPk\<close> is a valid public key or null, when a workspace is open,
  \<open>storage.write\<close> followed by \<open>storage.read\<close> returns a state with the same
  \<open>uuid\<close>, the same \<open>kp\<close> (by secret key), the same \<open>customPk\<close> (by base58
  string) and the same \<open>idl\<close>.
\<close>

theorem storage_write_read_roundtrip:
  assumes "workspace_open ex"
    and "\<forall>k. kp state = Some k \<longrightarrow> valid_Keypair w k"
    and "\<forall>p. customPk state = Some p \<longrightarrow> valid_PublicKey w p"
  shows "\<exists>state'. fst (storage_read w (storage_write w state ex)) = Returns state'
           \<and> uuid state' = uuid state
           \<and> map_option secretKey (kp state') = map_option secretKey (kp state)
           \<and> map_option (toBase58 w) (customPk state') = map_option (toBase58 w) (customPk state)
           \<and> idl state' = idl state"
proof -
  from deserialize_serialize [OF assms(2,3)] obtain state' where
    d: "deserialize w (serialize w state) = Inr state'"
    and same: "uuid state' = uuid state"
      "map_option secretKey (kp state') = map_option secretKey (kp state)"
      "map_option (toBase58 w) (customPk state') = map_option (toBase58 w) (customPk state)"
      "idl state' = idl state"
    by blast
  from assms(1) d have "fst (storage_read w (storage_write w state ex)) = Returns state'"
    by (simp add: storage_read_after_write)
  with same show ?thesis by blast
qed

theorem storage_write_read_roundtrip_witness:
  "workspace_open example_explorer
   \<and> valid_Keypair example_web3js example_Keypair
   \<and> valid_PublicKey example_web3js (PublicKey (replicate 32 50))
   \<and> (\<exists>state'. fst (storage_read example_web3js
                        (storage_write example_web3js example_state example_explorer)) = Returns state'
           \<and> uuid state' = uuid example_state
           \<and> map_option secretKey (kp state') = map_option secretKey (kp example_state)
           \<and> map_option (toBase58 example_web3js) (customPk state')
               = map_option (toBase58 example_web3js) (customPk example_state)
           \<and> idl state' = idl example_state)"
proof -
  have o: "workspace_open example_explorer"
    by (simp add: workspace_open_def example_explorer_def truthy_def)
  have k: "valid_Keypair example_web3js example_Keypair"
    by (simp add: valid_Keypair_def example_web3js_def example_Keypair_def)
  have p: "valid_PublicKey example_web3js (PublicKey (replicate 32 50))"
    by (simp add: valid_PublicKey_def example_web3js_def)
  have "\<forall>k. kp example_state = Some k \<longrightarrow> valid_Keypair example_web3js k"
    using k by (simp add: example_state_def)
  moreover have "\<forall>p. customPk example_state = Some p \<longrightarrow> valid_PublicKey example_web3js p"
    using p by (simp add: example_state_def)
  ultimately show ?thesis
    using o k p storage_write_read_roundtrip [of example_explorer example_state example_web3js]
    by blast
qed

section \<open>Failing reads\<close>

text \<open>
  C3. When reading or parsing the persisted file fails, \<open>storage.read\<close> returns
  the default state, in which \<open>uuid\<close>, \<open>kp\<close>, \<open>customPk\<close>, \<open>idl\<close> and
  \<open>importedProgram\<close> are all null; it does not throw.
\<close>

theorem storage_read_failure_default:
  assumes "fst (readToJSON ex PATH) = Inl e"
  shows "fst (storage_read w ex) = Returns defaultState
       \<and> uuid defaultState = None \<and> kp defaultState = None \<and> customPk defaultState = None
       \<and> idl defaultState = None \<and> importedProgram defaultState = None"
  using assms
  by (cases "readToJSON ex PATH") (simp add: storage_read_def defaultState_def)

theorem storage_read_failure_default_witness:
  "fst (readToJSON (example_explorer\<lparr>files := [PATH \<mapsto> Text ''<html>'']\<rparr>) PATH)
     = Inl (Error ''JSON.parse: unexpected token'')
   \<and> fst (readToJSON example_explorer PATH) = Inl (Error ''file not found'')
   \<and> fst (storage_read example_web3js (example_explorer\<lparr>files := [PATH \<mapsto> Text ''<html>'']\<rparr>))
     = Returns defaultState
   \<and> fst (storage_read example_web3js example_explorer) = Returns defaultState"
proof -
  have a: "fst (readToJSON (example_explorer\<lparr>files := [PATH \<mapsto> Text ''<html>'']\<rparr>) PATH)
     = Inl (Error ''JSON.parse: unexpected token'')"
    by (simp add: readToJSON_def)
  have b: "fst (readToJSON example_explorer PATH) = Inl (Error ''file not found'')"
    by (simp add: readToJSON_def example_explorer_def)
  show ?thesis
    using a b storage_read_failure_default [OF a, of example_web3js]
      storage_read_failure_default [OF b, of example_web3js]
    by simp
qed

section \<open>The persisted file\<close>

text \<open>
  C4. The file that \<open>storage.write\<close> writes at \<open>.workspace/program-info.json\<close>
  is a JSON object with exactly the properties \<open>uuid\<close>, \<open>idl\<close> (the IDL
  object), \<open>kp\<close> (the array of the bytes of the secret key, or null) and
  \<open>customPk\<close> (the base58 string, or null); a null \<open>uuid\<close> or \<open>idl\<close> is
  written as null.
\<close>

theorem storage_write_file:
  assumes "workspace_open ex"
  shows "files (storage_write w state ex) PATH =
     Some (Json (JObj
       [(''uuid'', case uuid state of None \<Rightarrow> JNull | Some u \<Rightarrow> JStr u),
        (''idl'', case idl state of None \<Rightarrow> JNull | Some i \<Rightarrow> JObj i),
        (''kp'', case kp state of None \<Rightarrow> JNull
                  | Some k \<Rightarrow> JArr (map (\<lambda>b. JNum (uint b)) (secretKey k))),
        (''customPk'', case customPk state of None \<Rightarrow> JNull | Some p \<Rightarrow> JStr (toBase58 w p))]))"
  using assms
  by (simp add: workspace_open_def storage_write_def writeFile_def JSON_stringify_def
      serialized_json_def serialize_def nullable_def Array_from_def comp_def
      split: option.splits)

theorem storage_write_file_witness:
  "workspace_open example_explorer
   \<and> files (storage_write example_web3js example_state example_explorer) PATH =
     Some (Json (JObj
       [(''uuid'', JStr ''b3a1''),
        (''idl'', JObj [(''version'', JStr ''0.1.0''), (''name'', JStr ''hello''),
                        (''instructions'', JArr [])]),
        (''kp'', JArr (replicate 32 (JNum 7) @ replicate 32 (JNum 49))),
        (''customPk'', JStr (replicate 32 (CHR ''2'')))]))"
proof -
  have o: "workspace_open example_explorer"
    by (simp add: workspace_open_def example_explorer_def truthy_def)
  have c: "char_of (50 :: nat) = CHR ''2''"
    by code_simp
  show ?thesis
    using o storage_write_file [OF o, of example_web3js example_state]
    by (simp add: example_state_def example_Keypair_def example_web3js_def c)
qed

section \<open>No workspace\<close>

text \<open>
  C9. When no workspace is open (\<open>currentWorkspaceName\<close> is absent),
  \<open>storage.read\<close> returns the default state and \<open>storage.write\<close> returns, and
  neither touches the file system: the explorer, with its files and the record of
  the accesses, is as before.
\<close>

theorem storage_closed_workspace:
  assumes "currentWorkspaceName ex = None"
  shows "storage_read w ex = (Returns defaultState, ex) \<and> storage_write w state ex = ex"
  using assms by (simp add: storage_read_def storage_write_def truthy_def)

theorem storage_closed_workspace_witness:
  "currentWorkspaceName (example_explorer\<lparr>currentWorkspaceName := None\<rparr>) = None
   \<and> storage_read example_web3js (example_explorer\<lparr>currentWorkspaceName := None\<rparr>)
       = (Returns defaultState, example_explorer\<lparr>currentWorkspaceName := None\<rparr>)
   \<and> storage_write example_web3js example_state (example_explorer\<lparr>currentWorkspaceName := None\<rparr>)
       = example_explorer\<lparr>currentWorkspaceName := None\<rparr>"
  using storage_closed_workspace
    [of "example_explorer\<lparr>currentWorkspaceName := None\<rparr>" example_web3js example_state]
  by simp

section \<open>The effective public key\<close>

text \<open>
  C6. The derived public key is \<open>customPk\<close> when that is not null, else the
  public key of \<open>kp\<close> when that is not null, else null.
\<close>

theorem derive_pk_priority:
  "(\<forall>p. customPk state = Some p \<longrightarrow> derive_pk state = Some p)
   \<and> (\<forall>k. customPk state = None \<and> kp state = Some k \<longrightarrow> derive_pk state = Some (publicKey k))
   \<and> (customPk state = None \<and> kp state = None \<longrightarrow> derive_pk state = None)"
  by (simp add: derive_pk_def)

theorem derive_pk_priority_witness:
  "derive_pk example_state = Some (PublicKey (replicate 32 50))
   \<and> derive_pk (example_state\<lparr>customPk := None\<rparr>) = Some (PublicKey (replicate 32 49))
   \<and> derive_pk (example_state\<lparr>customPk := None, kp := None\<rparr>) = None"
  using derive_pk_priority [of example_state]
    derive_pk_priority [of "example_state\<lparr>customPk := None\<rparr>"]
    derive_pk_priority [of "example_state\<lparr>customPk := None, kp := None\<rparr>"]
  by (simp add: example_state_def example_Keypair_def)

section \<open>The imported program is not persisted\<close>

text \<open>
  C5 claims that the imported binary is written and read back with the other
  fields. It is not: the example state, here with neither keypair nor custom key,
  has an imported program, and the state read back after writing it has none.
\<close>

theorem importedProgram_lost_counterexample:
  "fst (storage_read example_web3js
          (storage_write example_web3js (example_state\<lparr>kp := None, customPk := None\<rparr>)
             example_explorer))
     = Returns (example_state\<lparr>kp := None, customPk := None, importedProgram := None\<rparr>)
   \<and> importedProgram (example_state\<lparr>kp := None, customPk := None\<rparr>)
     = Some \<lparr>buffer = [127, 69, 76, 70], fileName = ''hello.so''\<rparr>"
  by code_simp

text \<open>
  C5, as amended. The fields \<open>uuid\<close>, \<open>kp\<close>, \<open>customPk\<close> and \<open>idl\<close> are
  mirrored to the file and come back on reading; \<open>importedProgram\<close> is not
  written (the file is the same whatever it is) and is null in the state read
  back.
\<close>

theorem storage_mirrors_all_but_importedProgram:
  assumes "workspace_open ex"
    and "\<forall>k. kp state = Some k \<longrightarrow> valid_Keypair w k"
    and "\<forall>p. customPk state = Some p \<longrightarrow> valid_PublicKey w p"
  shows "storage_write w (state\<lparr>importedProgram := x\<rparr>) ex = storage_write w state ex
       \<and> (\<exists>state'. fst (storage_read w (storage_write w state ex)) = Returns state'
           \<and> uuid state' = uuid state
           \<and> map_option secretKey (kp state') = map_option secretKey (kp state)
           \<and> map_option (toBase58 w) (customPk state') = map_option (toBase58 w) (customPk state)
           \<and> idl state' = idl state
           \<and> importedProgram state' = None)"
proof -
  have w: "storage_write w (state\<lparr>importedProgram := x\<rparr>) ex = storage_write w state ex"
    by (simp add: storage_write_def serialize_importedProgram)
  from deserialize_serialize [OF assms(2,3)] obtain state' where
    d: "deserialize w (serialize w state) = Inr state'"
    and same: "uuid state' = uuid state"
      "map_option secretKey (kp state') = map_option secretKey (kp state)"
      "map_option (toBase58 w) (customPk state') = map_option (toBase58 w) (customPk state)"
      "idl state' = idl state"
    by blast
  from assms(1) d have r: "fst (storage_read w (storage_write w state ex)) = Returns state'"
    by (simp add: storage_read_after_write)
  then have "importedProgram state' = None"
    by (rule storage_read_importedProgram)
  with w r same show ?thesis by blast
qed

theorem storage_mirrors_all_but_importedProgram_witness:
  "workspace_open example_explorer
   \<and> valid_Keypair example_web3js example_Keypair
   \<and> valid_PublicKey example_web3js (PublicKey (replicate 32 50))
   \<and> storage_write example_web3js (example_state\<lparr>importedProgram := None\<rparr>) example_explorer
       = storage_write example_web3js example_state example_explorer
   \<and> (\<exists>state'. fst (storage_read example_web3js
                        (storage_write example_web3js example_state example_explorer)) = Returns state'
           \<and> uuid state' = uuid example_state
           \<and> map_option secretKey (kp state') = map_option secretKey (kp example_state)
           \<and> map_option (toBase58 example_web3js) (customPk state')
               = map_option (toBase58 example_web3js) (customPk example_state)
           \<and> idl state' = idl example_state
           \<and> importedProgram state' = None)"
proof -
  have o: "workspace_open example_explorer"
    by (simp add: workspace_open_def example_explorer_def truthy_def)
  have k: "valid_Keypair example_web3js example_Keypair"
    by (simp add: valid_Keypair_def example_web3js_def example_Keypair_def)
  have p: "valid_PublicKey example_web3js (PublicKey (replicate 32 50))"
    by (simp add: valid_PublicKey_def example_web3js_def)
  have "\<forall>k. kp example_state = Some k \<longrightarrow> valid_Keypair example_web3js k"
    using k by (simp add: example_state_def)
  moreover have "\<forall>p. customPk example_state = Some p \<longrightarrow> valid_PublicKey example_web3js p"
    using p by (simp add: example_state_def)
  ultimately show ?thesis
    using o k p
      storage_mirrors_all_but_importedProgram [of example_explorer example_state example_web3js None]
    by blast
qed

section \<open>Facts about the fetches\<close>

lemma fetch_resolve:
  "fetch w conn state programId eff =
     (if \<not> isReady conn then (Inr None, eff)
      else case resolve state programId of
             None \<Rightarrow> (Inr None, eff)
           | Some p \<Rightarrow> fetch_caught w conn p eff)"
  by (simp add: fetch_def resolve_def split: option.splits)

lemma fetch_try_first_fails:
  "getAccountInfo conn (rpc_calls eff) p = Inl e \<Longrightarrow>
     fetch_try w conn p eff = (Inl e, eff\<lparr>rpc_calls := rpc_calls eff @ [p]\<rparr>)"
  by (simp add: fetch_try_def call_getAccountInfo_def)

lemma fetch_try_absent:
  "getAccountInfo conn (rpc_calls eff) p = Inr None \<Longrightarrow>
     fetch_try w conn p eff =
       (Inr \<lparr>deployed = False, authority = None, upgradable = True\<rparr>,
        eff\<lparr>rpc_calls := rpc_calls eff @ [p]\<rparr>)"
  by (simp add: fetch_try_def call_getAccountInfo_def)

lemma fetch_try_calls:
  "rpc_calls (snd (fetch_try w conn p eff)) =
     rpc_calls eff @
       (case getAccountInfo conn (rpc_calls eff) p of
          Inr (Some info) \<Rightarrow>
            (case PublicKey_of_buffer w (drop 4 (data info)) of
               Inr programDataPk \<Rightarrow> [p, programDataPk]
             | Inl e \<Rightarrow> [p])
        | _ \<Rightarrow> [p])"
  by (simp add: fetch_try_def call_getAccountInfo_def Let_def
      split: sum.splits option.splits prod.splits)

lemma fetch_try_console: "console (snd (fetch_try w conn p eff)) = console eff"
  by (simp add: fetch_try_def call_getAccountInfo_def Let_def
      split: sum.splits option.splits prod.splits)

lemma fetch_caught_calls:
  "rpc_calls (snd (fetch_caught w conn p eff)) = rpc_calls (snd (fetch_try w conn p eff))"
  by (simp add: fetch_caught_def console_log_def split: prod.splits sum.splits)

lemma fetch_caught_never_throws: "\<exists>r. fst (fetch_caught w conn p eff) = Inr r"
  by (simp add: fetch_caught_def split: prod.splits sum.splits)

lemma fetch_caught_catches:
  "fetch_try w conn p eff = (Inl e, eff') \<Longrightarrow>
     fetch_caught w conn p eff = (Inr None, console_log [''Could not get authority:'', message e] eff')"
  by (simp add: fetch_caught_def)

lemma fetchIdl_resolve:
  "fetchIdl a conn state programId eff =
     (case resolve state programId of
        None \<Rightarrow> (Inr None, eff)
      | Some p \<Rightarrow> fetchIdl_from a conn p eff)"
  by (simp add: fetchIdl_def resolve_def split: option.splits)

lemma fetchIdl_from_rpc_fails:
  "idlAddress a p = Inr idlPk \<Longrightarrow> getAccountInfo conn (rpc_calls eff) idlPk = Inl e \<Longrightarrow>
     fetchIdl_from a conn p eff = (Inl e, eff\<lparr>rpc_calls := rpc_calls eff @ [idlPk]\<rparr>)"
  by (simp add: fetchIdl_from_def call_getAccountInfo_def)

lemma fetchIdl_from_decode_fails:
  "idlAddress a p = Inr idlPk \<Longrightarrow> getAccountInfo conn (rpc_calls eff) idlPk = Inr (Some info) \<Longrightarrow>
   decodeIdlAccount a (drop 8 (data info)) = Inl e \<Longrightarrow>
     fetchIdl_from a conn p eff = (Inl e, eff\<lparr>rpc_calls := rpc_calls eff @ [idlPk]\<rparr>)"
  by (simp add: fetchIdl_from_def call_getAccountInfo_def)

lemma fetch_try_first_key_fails:
  "getAccountInfo conn (rpc_calls eff) p = Inr (Some info) \<Longrightarrow>
   PublicKey_of_buffer w (drop 4 (data info)) = Inl e \<Longrightarrow>
     fetch_try w conn p eff = (Inl e, eff\<lparr>rpc_calls := rpc_calls eff @ [p]\<rparr>)"
  by (simp add: fetch_try_def call_getAccountInfo_def)

lemma fetch_try_second_fails:
  "getAccountInfo conn (rpc_calls eff) p = Inr (Some info) \<Longrightarrow>
   PublicKey_of_buffer w (drop 4 (data info)) = Inr programDataPk \<Longrightarrow>
   getAccountInfo conn (rpc_calls eff @ [p]) programDataPk = Inl e \<Longrightarrow>
     fetch_try w conn p eff = (Inl e, eff\<lparr>rpc_calls := rpc_calls eff @ [p, programDataPk]\<rparr>)"
  by (simp add: fetch_try_def call_getAccountInfo_def)

lemma fetch_try_second_key_fails:
  "getAccountInfo conn (rpc_calls eff) p = Inr (Some info) \<Longrightarrow>
   PublicKey_of_buffer w (drop 4 (data info)) = Inr programDataPk \<Longrightarrow>
   getAccountInfo conn (rpc_calls eff @ [p]) programDataPk = Inr (Some dataInfo) \<Longrightarrow>
   at (data dataInfo) 12 = Some b \<Longrightarrow> b \<noteq> 0 \<Longrightarrow>
   PublicKey_of_buffer w (slice 13 45 (data dataInfo)) = Inl e \<Longrightarrow>
     fetch_try w conn p eff = (Inl e, eff\<lparr>rpc_calls := rpc_calls eff @ [p, programDataPk]\<rparr>)"
  by (simp add: fetch_try_def call_getAccountInfo_def)

lemma fetchIdl_from_console: "console (snd (fetchIdl_from a conn p eff)) = console eff"
  by (simp add: fetchIdl_from_def call_getAccountInfo_def
      split: sum.splits option.splits prod.splits)

lemma fetchIdl_console: "console (snd (fetchIdl a conn state programId eff)) = console eff"
  by (simp add: fetchIdl_resolve fetchIdl_from_console split: option.splits)

section \<open>A program that is not deployed\<close>

text \<open>
  C8. With a ready connection and a resolved program id, when the program account
  does not exist (\<open>getAccountInfo\<close> returns null), \<open>fetch\<close> returns
  \<open>{ deployed: false, upgradable: true }\<close>, with no authority.
\<close>

theorem fetch_absent_program:
  assumes "isReady conn"
    and "resolve state programId = Some p"
    and "getAccountInfo conn (rpc_calls eff) p = Inr None"
  shows "fst (fetch w conn state programId eff)
           = Inr (Some \<lparr>deployed = False, authority = None, upgradable = True\<rparr>)"
  using assms by (simp add: fetch_resolve fetch_caught_def fetch_try_absent)

theorem fetch_absent_program_witness:
  "isReady example_connection
   \<and> resolve example_state (Some (PublicKey (replicate 32 1))) = Some (PublicKey (replicate 32 1))
   \<and> getAccountInfo example_connection (rpc_calls no_effects) (PublicKey (replicate 32 1)) = Inr None
   \<and> fst (fetch example_web3js example_connection example_state
              (Some (PublicKey (replicate 32 1))) no_effects)
       = Inr (Some \<lparr>deployed = False, authority = None, upgradable = True\<rparr>)"
proof -
  have r: "isReady example_connection"
    by (simp add: example_connection_def)
  have p: "resolve example_state (Some (PublicKey (replicate 32 1))) = Some (PublicKey (replicate 32 1))"
    by (simp add: resolve_def)
  have g: "getAccountInfo example_connection (rpc_calls no_effects) (PublicKey (replicate 32 1))
             = Inr None"
    by (simp add: example_connection_def)
  show ?thesis
    using r p g fetch_absent_program [OF r p g, of example_web3js]
    by simp
qed

section \<open>The requests of \<open>fetch\<close>\<close>

text \<open>
  C7. A call of \<open>fetch\<close> makes at most two \<open>getAccountInfo\<close> requests, one
  after the other: the first for the resolved program id; a second one only when
  the first has returned an account, and then for the public key made of the bytes
  of that account's data from byte 4 on. A request that fails is not repeated.
\<close>

theorem fetch_rpc_calls:
  "\<exists>new. rpc_calls (snd (fetch w conn state programId eff)) = rpc_calls eff @ new
     \<and> length new \<le> 2
     \<and> (\<forall>a. new \<noteq> [] \<and> hd new = a \<longrightarrow> isReady conn \<and> resolve state programId = Some a)
     \<and> (\<forall>a e. new \<noteq> [] \<and> hd new = a \<and> getAccountInfo conn (rpc_calls eff) a = Inl e \<longrightarrow> new = [a])
     \<and> (\<forall>a b. new = [a, b] \<longrightarrow>
           (\<exists>info. getAccountInfo conn (rpc_calls eff) a = Inr (Some info)
              \<and> PublicKey_of_buffer w (drop 4 (data info)) = Inr b))"
proof (cases "isReady conn")
  case False
  then have "rpc_calls (snd (fetch w conn state programId eff)) = rpc_calls eff @ []"
    by (simp add: fetch_resolve)
  then show ?thesis by (intro exI [of _ "[]"]) simp
next
  case True
  show ?thesis
  proof (cases "resolve state programId")
    case None
    with True have "rpc_calls (snd (fetch w conn state programId eff)) = rpc_calls eff @ []"
      by (simp add: fetch_resolve)
    then show ?thesis by (intro exI [of _ "[]"]) simp
  next
    case (Some p)
    define new where "new =
       (case getAccountInfo conn (rpc_calls eff) p of
          Inr (Some info) \<Rightarrow>
            (case PublicKey_of_buffer w (drop 4 (data info)) of
               Inr programDataPk \<Rightarrow> [p, programDataPk]
             | Inl e \<Rightarrow> [p])
        | _ \<Rightarrow> [p])"
    from True Some have "rpc_calls (snd (fetch w conn state programId eff)) = rpc_calls eff @ new"
      by (simp add: fetch_resolve fetch_caught_calls fetch_try_calls new_def)
    moreover have "length new \<le> 2"
      by (simp add: new_def split: sum.splits option.splits)
    moreover have "\<forall>a. new \<noteq> [] \<and> hd new = a \<longrightarrow> isReady conn \<and> resolve state programId = Some a"
      using True Some by (simp add: new_def split: sum.splits option.splits)
    moreover have "\<forall>a e. new \<noteq> [] \<and> hd new = a \<and> getAccountInfo conn (rpc_calls eff) a = Inl e
                     \<longrightarrow> new = [a]"
      by (auto simp: new_def split: sum.splits option.splits)
    moreover have "\<forall>a b. new = [a, b] \<longrightarrow>
           (\<exists>info. getAccountInfo conn (rpc_calls eff) a = Inr (Some info)
              \<and> PublicKey_of_buffer w (drop 4 (data info)) = Inr b)"
      by (auto simp: new_def split: sum.splits option.splits)
    ultimately show ?thesis by blast
  qed
qed

theorem fetch_rpc_calls_witness:
  "rpc_calls (snd (fetch example_web3js example_connection example_state None no_effects))
     = [PublicKey (replicate 32 50), PublicKey (replicate 32 9)]
   \<and> (\<exists>info. getAccountInfo example_connection [] (PublicKey (replicate 32 50)) = Inr (Some info)
          \<and> PublicKey_of_buffer example_web3js (drop 4 (data info)) = Inr (PublicKey (replicate 32 9)))"
proof -
  have c: "rpc_calls (snd (fetch example_web3js example_connection example_state None no_effects))
     = [PublicKey (replicate 32 50), PublicKey (replicate 32 9)]"
    by code_simp
  from fetch_rpc_calls [of example_web3js example_connection example_state None no_effects]
  obtain new where
    n: "rpc_calls (snd (fetch example_web3js example_connection example_state None no_effects))
          = rpc_calls no_effects @ new"
    and l: "\<forall>a b. new = [a, b] \<longrightarrow>
           (\<exists>info. getAccountInfo example_connection (rpc_calls no_effects) a = Inr (Some info)
              \<and> PublicKey_of_buffer example_web3js (drop 4 (data info)) = Inr b)"
    by blast
  from n c have "new = [PublicKey (replicate 32 50), PublicKey (replicate 32 9)]"
    by (simp add: no_effects_def)
  with l have "\<exists>info. getAccountInfo example_connection (rpc_calls no_effects)
                  (PublicKey (replicate 32 50)) = Inr (Some info)
          \<and> PublicKey_of_buffer example_web3js (drop 4 (data info)) = Inr (PublicKey (replicate 32 9))"
    by blast
  with c show ?thesis
    by (simp add: no_effects_def)
qed

section \<open>Failures of the requests\<close>

text \<open>
  C2 claims that both \<open>fetch\<close> and \<open>fetchIdl\<close> catch and log the failures of
  their requests. \<open>fetchIdl\<close> does not: with a connection whose requests fail it
  throws the failure of \<open>getAccountInfo\<close> to its caller, and nothing is logged.
\<close>

theorem fetchIdl_propagates_counterexample:
  "fetchIdl example_anchor failing_connection example_state None no_effects
     = (Inl (Error ''failed to fetch''),
        \<lparr>rpc_calls = [PublicKey (replicate 32 3)], console = []\<rparr>)"
  by code_simp

text \<open>
  C2, as amended. \<open>fetch\<close> never throws. Every failure raised in its \<open>try\<close>
  block is caught and logged as \<open>Could not get authority:\<close> with the message,
  and the caller receives \<open>undefined\<close>: the failure of the first
  \<open>getAccountInfo\<close> request, of the \<open>PublicKey\<close> made from the data of the
  program account, of the second request, and of the \<open>PublicKey\<close> made from the
  data of the program data account. \<open>fetchIdl\<close> has no handler: a failure of its
  \<open>getAccountInfo\<close> request or of \<open>decodeIdlAccount\<close> goes to the caller,
  and \<open>fetchIdl\<close> never logs.
\<close>

theorem fetch_catches_fetchIdl_propagates:
  "(\<exists>r. fst (fetch w conn state programId eff) = Inr r)
   \<and> (\<forall>p e. isReady conn \<and> resolve state programId = Some p
          \<and> getAccountInfo conn (rpc_calls eff) p = Inl e
        \<longrightarrow> fetch w conn state programId eff
              = (Inr None,
                 console_log [''Could not get authority:'', message e]
                   (eff\<lparr>rpc_calls := rpc_calls eff @ [p]\<rparr>)))
   \<and> (\<forall>p info e. isReady conn \<and> resolve state programId = Some p
          \<and> getAccountInfo conn (rpc_calls eff) p = Inr (Some info)
          \<and> PublicKey_of_buffer w (drop 4 (data info)) = Inl e
        \<longrightarrow> fetch w conn state programId eff
              = (Inr None,
                 console_log [''Could not get authority:'', message e]
                   (eff\<lparr>rpc_calls := rpc_calls eff @ [p]\<rparr>)))
   \<and> (\<forall>p info programDataPk e. isReady conn \<and> resolve state programId = Some p
          \<and> getAccountInfo conn (rpc_calls eff) p = Inr (Some info)
          \<and> PublicKey_of_buffer w (drop 4 (data info)) = Inr programDataPk
          \<and> getAccountInfo conn (rpc_calls eff @ [p]) programDataPk = Inl e
        \<longrightarrow> fetch w conn state programId eff
              = (Inr None,
                 console_log [''Could not get authority:'', message e]
                   (eff\<lparr>rpc_calls := rpc_calls eff @ [p, programDataPk]\<rparr>)))
   \<and> (\<forall>p info programDataPk dataInfo b e. isReady conn \<and> resolve state programId = Some p
          \<and> getAccountInfo conn (rpc_calls eff) p = Inr (Some info)
          \<and> PublicKey_of_buffer w (drop 4 (data info)) = Inr programDataPk
          \<and> getAccountInfo conn (rpc_calls eff @ [p]) programDataPk = Inr (Some dataInfo)
          \<and> at (data dataInfo) 12 = Some b \<and> b \<noteq> 0
          \<and> PublicKey_of_buffer w (slice 13 45 (data dataInfo)) = Inl e
        \<longrightarrow> fetch w conn state programId eff
              = (Inr None,
                 console_log [''Could not get authority:'', message e]
                   (eff\<lparr>rpc_calls := rpc_calls eff @ [p, programDataPk]\<rparr>)))
   \<and> (\<forall>p e eff'. isReady conn \<and> resolve state programId = Some p
          \<and> fetch_try w conn p eff = (Inl e, eff')
        \<longrightarrow> fetch w conn state programId eff
              = (Inr None, console_log [''Could not get authority:'', message e] eff'))
   \<and> (\<forall>p idlPk e. resolve state programId = Some p \<and> idlAddress a p = Inr idlPk
          \<and> getAccountInfo conn (rpc_calls eff) idlPk = Inl e
        \<longrightarrow> fetchIdl a conn state programId eff
              = (Inl e, eff\<lparr>rpc_calls := rpc_calls eff @ [idlPk]\<rparr>))
   \<and> (\<forall>p idlPk info e. resolve state programId = Some p \<and> idlAddress a p = Inr idlPk
          \<and> getAccountInfo conn (rpc_calls eff) idlPk = Inr (Some info)
          \<and> decodeIdlAccount a (drop 8 (data info)) = Inl e
        \<longrightarrow> fetchIdl a conn state programId eff
              = (Inl e, eff\<lparr>rpc_calls := rpc_calls eff @ [idlPk]\<rparr>))
   \<and> console (snd (fetchIdl a conn state programId eff)) = console eff"
proof -
  have never: "\<exists>r. fst (fetch w conn state programId eff) = Inr r"
    by (cases "resolve state programId") (simp_all add: fetch_resolve fetch_caught_never_throws)
  have caught: "fetch w conn state programId eff
              = (Inr None, console_log [''Could not get authority:'', message e] eff')"
    if "isReady conn" "resolve state programId = Some p" "fetch_try w conn p eff = (Inl e, eff')"
    for p e eff'
    using that by (simp add: fetch_resolve fetch_caught_catches)
  have first: "\<forall>p e. isReady conn \<and> resolve state programId = Some p
          \<and> getAccountInfo conn (rpc_calls eff) p = Inl e
        \<longrightarrow> fetch w conn state programId eff
              = (Inr None,
                 console_log [''Could not get authority:'', message e]
                   (eff\<lparr>rpc_calls := rpc_calls eff @ [p]\<rparr>))"
    by (blast intro: caught fetch_try_first_fails)
  have first_key: "\<forall>p info e. isReady conn \<and> resolve state programId = Some p
          \<and> getAccountInfo conn (rpc_calls eff) p = Inr (Some info)
          \<and> PublicKey_of_buffer w (drop 4 (data info)) = Inl e
        \<longrightarrow> fetch w conn state programId eff
              = (Inr None,
                 console_log [''Could not get authority:'', message e]
                   (eff\<lparr>rpc_calls := rpc_calls eff @ [p]\<rparr>))"
    by (blast intro: caught fetch_try_first_key_fails)
  have second: "\<forall>p info programDataPk e. isReady conn \<and> resolve state programId = Some p
          \<and> getAccountInfo conn (rpc_calls eff) p = Inr (Some info)
          \<and> PublicKey_of_buffer w (drop 4 (data info)) = Inr programDataPk
          \<and> getAccountInfo conn (rpc_calls eff @ [p]) programDataPk = Inl e
        \<longrightarrow> fetch w conn state programId eff
              = (Inr None,
                 console_log [''Could not get authority:'', message e]
                   (eff\<lparr>rpc_calls := rpc_calls eff @ [p, programDataPk]\<rparr>))"
    by (blast intro: caught fetch_try_second_fails)
  have second_key: "\<forall>p info programDataPk dataInfo b e. isReady conn \<and> resolve state programId = Some p
          \<and> getAccountInfo conn (rpc_calls eff) p = Inr (Some info)
          \<and> PublicKey_of_buffer w (drop 4 (data info)) = Inr programDataPk
          \<and> getAccountInfo conn (rpc_calls eff @ [p]) programDataPk = Inr (Some dataInfo)
          \<and> at (data dataInfo) 12 = Some b \<and> b \<noteq> 0
          \<and> PublicKey_of_buffer w (slice 13 45 (data dataInfo)) = Inl e
        \<longrightarrow> fetch w conn state programId eff
              = (Inr None,
                 console_log [''Could not get authority:'', message e]
                   (eff\<lparr>rpc_calls := rpc_calls eff @ [p, programDataPk]\<rparr>))"
    by (blast intro: caught fetch_try_second_key_fails)
  have any: "\<forall>p e eff'. isReady conn \<and> resolve state programId = Some p
          \<and> fetch_try w conn p eff = (Inl e, eff')
        \<longrightarrow> fetch w conn state programId eff
              = (Inr None, console_log [''Could not get authority:'', message e] eff')"
    by (blast intro: caught)
  have rpc: "\<forall>p idlPk e. resolve state programId = Some p \<and> idlAddress a p = Inr idlPk
          \<and> getAccountInfo conn (rpc_calls eff) idlPk = Inl e
        \<longrightarrow> fetchIdl a conn state programId eff
              = (Inl e, eff\<lparr>rpc_calls := rpc_calls eff @ [idlPk]\<rparr>)"
    by (simp add: fetchIdl_resolve fetchIdl_from_rpc_fails)
  have decode: "\<forall>p idlPk info e. resolve state programId = Some p \<and> idlAddress a p = Inr idlPk
          \<and> getAccountInfo conn (rpc_calls eff) idlPk = Inr (Some info)
          \<and> decodeIdlAccount a (drop 8 (data info)) = Inl e
        \<longrightarrow> fetchIdl a conn state programId eff
              = (Inl e, eff\<lparr>rpc_calls := rpc_calls eff @ [idlPk]\<rparr>)"
    by (simp add: fetchIdl_resolve fetchIdl_from_decode_fails)
  have silent: "console (snd (fetchIdl a conn state programId eff)) = console eff"
    by (rule fetchIdl_console)
  from never first first_key second second_key any rpc decode silent show ?thesis
    by (intro conjI)
qed

theorem fetch_catches_fetchIdl_propagates_witness:
  "fetch example_web3js failing_connection example_state None no_effects
       = (Inr None,
          \<lparr>rpc_calls = [PublicKey (replicate 32 50)],
             console = [[''Could not get authority:'', ''failed to fetch'']]\<rparr>)
   \<and> fetch example_web3js long_data_connection example_state None no_effects
       = (Inr None,
          \<lparr>rpc_calls = [PublicKey (replicate 32 50)],
             console = [[''Could not get authority:'', ''Invalid public key input'']]\<rparr>)
   \<and> fetch example_web3js second_failing_connection example_state None no_effects
       = (Inr None,
          \<lparr>rpc_calls = [PublicKey (replicate 32 50), PublicKey (replicate 32 9)],
             console = [[''Could not get authority:'', ''failed to fetch'']]\<rparr>)
   \<and> fetch strict_web3js short_data_connection example_state None no_effects
       = (Inr None,
          \<lparr>rpc_calls = [PublicKey (replicate 32 50), PublicKey (replicate 32 9)],
             console = [[''Could not get authority:'', ''Invalid public key input'']]\<rparr>)
   \<and> fetchIdl example_anchor failing_connection example_state None no_effects
       = (Inl (Error ''failed to fetch''),
          \<lparr>rpc_calls = [PublicKey (replicate 32 3)], console = []\<rparr>)
   \<and> fetchIdl example_anchor long_data_connection example_state None no_effects
       = (Inl (Error ''buffer too short''),
          \<lparr>rpc_calls = [PublicKey (replicate 32 3)], console = []\<rparr>)"
proof -
  let ?pk = "PublicKey (replicate 32 50)"
  let ?dataPk = "PublicKey (replicate 32 9)"
  let ?idlPk = "PublicKey (replicate 32 3)"
  let ?program = "\<lparr>data = [2, 0, 0, 0] @ replicate 32 9\<rparr>"
  let ?long = "\<lparr>data = replicate 40 1\<rparr>"
  let ?short = "\<lparr>data = replicate 20 1\<rparr>"
  have p: "resolve example_state None = Some ?pk"
    by (simp add: resolve_def derive_pk_def example_state_def)
  have i: "idlAddress example_anchor ?pk = Inr ?idlPk"
    by (simp add: example_anchor_def)

  have r1: "isReady failing_connection"
    by (simp add: failing_connection_def)
  have g1: "getAccountInfo failing_connection calls address = Inl (Error ''failed to fetch'')"
    for calls address
    by (simp add: failing_connection_def)
  note inst1 = fetch_catches_fetchIdl_propagates
    [of example_web3js failing_connection example_state None no_effects example_anchor]
  note first1 = inst1 [THEN conjunct2, THEN conjunct1, rule_format]
  note rpc1 = inst1 [THEN conjunct2, THEN conjunct2, THEN conjunct2, THEN conjunct2,
    THEN conjunct2, THEN conjunct2, THEN conjunct1, rule_format]
  have "fetch example_web3js failing_connection example_state None no_effects
       = (Inr None, console_log [''Could not get authority:'', message (Error ''failed to fetch'')]
             (no_effects\<lparr>rpc_calls := rpc_calls no_effects @ [?pk]\<rparr>))"
    by (rule first1) (insert r1 p g1, simp)
  then have w1: "fetch example_web3js failing_connection example_state None no_effects
       = (Inr None,
          \<lparr>rpc_calls = [?pk], console = [[''Could not get authority:'', ''failed to fetch'']]\<rparr>)"
    by (simp add: console_log_def no_effects_def)
  have "fetchIdl example_anchor failing_connection example_state None no_effects
       = (Inl (Error ''failed to fetch''), no_effects\<lparr>rpc_calls := rpc_calls no_effects @ [?idlPk]\<rparr>)"
    by (rule rpc1 [where p = ?pk]) (insert p i g1, simp)
  then have w5: "fetchIdl example_anchor failing_connection example_state None no_effects
       = (Inl (Error ''failed to fetch''), \<lparr>rpc_calls = [?idlPk], console = []\<rparr>)"
    by (simp add: no_effects_def)

  have r2: "isReady long_data_connection"
    by (simp add: long_data_connection_def)
  have g2: "getAccountInfo long_data_connection calls address = Inr (Some ?long)"
    for calls address
    by (simp add: long_data_connection_def)
  have k2: "PublicKey_of_buffer example_web3js (drop 4 (data ?long))
              = Inl (Error ''Invalid public key input'')"
    by (simp add: example_web3js_def)
  have d2: "decodeIdlAccount example_anchor (drop 8 (data ?long))
              = Inl (Error ''buffer too short'')"
    by (simp add: example_anchor_def)
  note inst2 = fetch_catches_fetchIdl_propagates
    [of example_web3js long_data_connection example_state None no_effects example_anchor]
  note first_key2 = inst2 [THEN conjunct2, THEN conjunct2, THEN conjunct1, rule_format]
  note decode2 = inst2 [THEN conjunct2, THEN conjunct2, THEN conjunct2, THEN conjunct2,
    THEN conjunct2, THEN conjunct2, THEN conjunct2, THEN conjunct1, rule_format]
  have "fetch example_web3js long_data_connection example_state None no_effects
       = (Inr None,
          console_log [''Could not get authority:'', message (Error ''Invalid public key input'')]
             (no_effects\<lparr>rpc_calls := rpc_calls no_effects @ [?pk]\<rparr>))"
    by (rule first_key2 [where p = ?pk and info = ?long]) (insert r2 p g2 k2, simp)
  then have w2: "fetch example_web3js long_data_connection example_state None no_effects
       = (Inr None,
          \<lparr>rpc_calls = [?pk],
             console = [[''Could not get authority:'', ''Invalid public key input'']]\<rparr>)"
    by (simp add: console_log_def no_effects_def)
  have "fetchIdl example_anchor long_data_connection example_state None no_effects
       = (Inl (Error ''buffer too short''), no_effects\<lparr>rpc_calls := rpc_calls no_effects @ [?idlPk]\<rparr>)"
    by (rule decode2 [where p = ?pk and info = ?long]) (insert p i g2 d2, simp)
  then have w6: "fetchIdl example_anchor long_data_connection example_state None no_effects
       = (Inl (Error ''buffer too short''), \<lparr>rpc_calls = [?idlPk], console = []\<rparr>)"
    by (simp add: no_effects_def)

  have r3: "isReady second_failing_connection"
    by (simp add: second_failing_connection_def)
  have g3: "getAccountInfo second_failing_connection (rpc_calls no_effects) ?pk
              = Inr (Some ?program)"
    by (simp add: second_failing_connection_def no_effects_def)
  have k3: "PublicKey_of_buffer example_web3js (drop 4 (data ?program)) = Inr ?dataPk"
    by (simp add: example_web3js_def)
  have h3: "getAccountInfo second_failing_connection (rpc_calls no_effects @ [?pk]) ?dataPk
              = Inl (Error ''failed to fetch'')"
    by (simp add: second_failing_connection_def)
  note inst3 = fetch_catches_fetchIdl_propagates
    [of example_web3js second_failing_connection example_state None no_effects example_anchor]
  note second3 = inst3 [THEN conjunct2, THEN conjunct2, THEN conjunct2, THEN conjunct1,
    rule_format]
  have "fetch example_web3js second_failing_connection example_state None no_effects
       = (Inr None, console_log [''Could not get authority:'', message (Error ''failed to fetch'')]
             (no_effects\<lparr>rpc_calls := rpc_calls no_effects @ [?pk, ?dataPk]\<rparr>))"
    by (rule second3 [where p = ?pk and info = ?program]) (insert r3 p g3 k3 h3, simp)
  then have w3: "fetch example_web3js second_failing_connection example_state None no_effects
       = (Inr None,
          \<lparr>rpc_calls = [?pk, ?dataPk],
             console = [[''Could not get authority:'', ''failed to fetch'']]\<rparr>)"
    by (simp add: console_log_def no_effects_def)

  have r4: "isReady short_data_connection"
    by (simp add: short_data_connection_def)
  have g4: "getAccountInfo short_data_connection (rpc_calls no_effects) ?pk
              = Inr (Some ?program)"
    by (simp add: short_data_connection_def no_effects_def)
  have k4: "PublicKey_of_buffer strict_web3js (drop 4 (data ?program)) = Inr ?dataPk"
    by (simp add: strict_web3js_def)
  have h4: "getAccountInfo short_data_connection (rpc_calls no_effects @ [?pk]) ?dataPk
              = Inr (Some ?short)"
    by (simp add: short_data_connection_def)
  have a4: "at (data ?short) 12 = Some 1"
    by (simp add: at_def)
  have z4: "(1 :: byte) \<noteq> 0"
    by simp
  have s4: "PublicKey_of_buffer strict_web3js (slice 13 45 (data ?short))
              = Inl (Error ''Invalid public key input'')"
    by (simp add: strict_web3js_def slice_def)
  note inst4 = fetch_catches_fetchIdl_propagates
    [of strict_web3js short_data_connection example_state None no_effects example_anchor]
  note second_key4 = inst4 [THEN conjunct2, THEN conjunct2, THEN conjunct2, THEN conjunct2,
    THEN conjunct1, rule_format]
  have "fetch strict_web3js short_data_connection example_state None no_effects
       = (Inr None,
          console_log [''Could not get authority:'', message (Error ''Invalid public key input'')]
             (no_effects\<lparr>rpc_calls := rpc_calls no_effects @ [?pk, ?dataPk]\<rparr>))"
    by (rule second_key4 [where p = ?pk and info = ?program and dataInfo = ?short and b = 1])
       (insert r4 p g4 k4 h4 a4 z4 s4, simp)
  then have w4: "fetch strict_web3js short_data_connection example_state None no_effects
       = (Inr None,
          \<lparr>rpc_calls = [?pk, ?dataPk],
             console = [[''Could not get authority:'', ''Invalid public key input'']]\<rparr>)"
    by (simp add: console_log_def no_effects_def)

  from w1 w2 w3 w4 w5 w6 show ?thesis
    by (intro conjI)
qed

end
